theory Spec2Isabelle
  imports Main "HOL-Library.AList"
begin

section \<open>Go runtime outcomes\<close>

text \<open>
  A Go function either returns or panics.  The run-time panics that the pipeline can
  raise are an index out of range (index and length), a nil pointer dereference, and an
  explicit \<^verbatim>\<open>panic(v)\<close> with the printed value.
\<close>

datatype go_panic =
    IndexOutOfRange nat nat
  | NilDereference
  | PanicValue string

datatype 'a outcome = Return 'a | Panic go_panic

text \<open>
  The error values the pipeline returns.  \<open>Errorf f\<close> is the error that
  \<^verbatim>\<open>fmt.Errorf(f)\<close> makes of the format string \<open>f\<close>, called with no operands: the
  pipeline builds every message of its own this way, so a message it wraps is used as
  part of the format.  \<open>ReturnedSpecificError e\<close> is a \<^verbatim>\<open>*types.SpecificError\<close> handed
  on as it is.
\<close>

datatype go_error = Errorf string | ReturnedSpecificError string

text \<open>
  The text of \<open>Errorf f\<close>.  Formatting copies a format without a percent sign as it
  is.  In a format with a percent sign the standard library rewrites each verb that has
  no operand (\<^verbatim>\<open>%d\<close> becomes \<^verbatim>\<open>%!d(MISSING)\<close>); that rewriting is the library's, and
  is the parameter \<open>verbs\<close>.
\<close>

definition formatNoOperands :: "(string \<Rightarrow> string) \<Rightarrow> string \<Rightarrow> string" where
  "formatNoOperands verbs f = (if CHR ''%'' \<in> set f then verbs f else f)"

definition errorfText :: "(string \<Rightarrow> string) \<Rightarrow> go_error \<Rightarrow> string option" where
  "errorfText verbs e =
     (case e of Errorf f \<Rightarrow> Some (formatNoOperands verbs f) | ReturnedSpecificError m \<Rightarrow> None)"

section \<open>Value marshaller: \<^verbatim>\<open>convertRequestParametersToV8Parameters\<close>\<close>

text \<open>
  \<^verbatim>\<open>types.FunctionParameterCapsle\<close> as the marshaller reads it: the type tag
  \<^verbatim>\<open>CType\<close> and the dynamic \<^verbatim>\<open>Value\<close>.  The request carries a slice of pointers
  to capsules, so an entry may be nil (\<open>None\<close>).
\<close>

record 'a FunctionParameterCapsle =
  CType :: string
  Value :: 'a

text \<open>
  The engine's value factory \<^verbatim>\<open>v8.NewValue\<close> belongs to the engine binding, not to this
  repository; it is a parameter \<open>NewValue\<close> that answers an error message (\<open>Inl\<close>) or
  the engine value (\<open>Inr\<close>).

  The \<^verbatim>\<open>for hight, item := range reqparms\<close> loop, with the index \<open>hight\<close> and the
  accumulator \<open>convertedValues\<close>.  The condition \<^verbatim>\<open>item.CType != parmTypes[hight]\<close>
  reads the capsule first and then indexes the signature; the six cases of the
  \<^verbatim>\<open>switch\<close> have the same body.  The function's result \<^verbatim>\<open>(nil, err)\<close> is \<open>Inl err\<close> and
  \<^verbatim>\<open>(convertedValues, nil)\<close> is \<open>Inr convertedValues\<close>.  An engine error is wrapped
  by \<^verbatim>\<open>fmt.Errorf(prefix + err.Error())\<close>: the engine's message is part of the format.
\<close>

fun convertLoop ::
  "('a \<Rightarrow> string + 'v) \<Rightarrow> string list \<Rightarrow> nat \<Rightarrow> 'a FunctionParameterCapsle option list
     \<Rightarrow> 'v list \<Rightarrow> (go_error + 'v list) outcome" where
  "convertLoop NewValue parmTypes hight [] convertedValues = Return (Inr convertedValues)"
| "convertLoop NewValue parmTypes hight (None # rest) convertedValues = Panic NilDereference"
| "convertLoop NewValue parmTypes hight (Some item # rest) convertedValues =
     (if length parmTypes \<le> hight then Panic (IndexOutOfRange hight (length parmTypes))
      else if CType item \<noteq> parmTypes ! hight
        then Return (Inl (Errorf ''convertRequestParametersToV8Parameters: not same parameter''))
      else
        (let converted =
           (case NewValue (Value item) of
              Inl err \<Rightarrow>
                Return (Inl (Errorf (''convertRequestParametersToV8Parameters: '' @ err)))
            | Inr val \<Rightarrow>
                convertLoop NewValue parmTypes (Suc hight) rest (convertedValues @ [val]))
         in
           if CType item = ''boolean'' then converted
           else if CType item = ''number'' then converted
           else if CType item = ''string'' then converted
           else if CType item = ''array'' then converted
           else if CType item = ''object'' then converted
           else if CType item = ''bytes'' then converted
           else Return (Inl (Errorf ''convertRequestParametersToV8Parameters: unsuported datatype''))))"

definition convertRequestParametersToV8Parameters ::
  "('a \<Rightarrow> string + 'v) \<Rightarrow> string list \<Rightarrow> 'a FunctionParameterCapsle option list
     \<Rightarrow> (go_error + 'v list) outcome" where
  "convertRequestParametersToV8Parameters NewValue parmTypes reqparms =
     convertLoop NewValue parmTypes 0 reqparms []"

text \<open>
  The parameter tag vocabulary of the specification: the six exact lowercase strings.
\<close>

definition supportedTag :: "string \<Rightarrow> bool" where
  "supportedTag t = (t \<in> set [''boolean'', ''number'', ''string'', ''array'', ''object'', ''bytes''])"

text \<open>
  A parameter at index \<open>i\<close> passes when the loop body reaches its \<^verbatim>\<open>append\<close>: the
  entry is a capsule, the signature has an entry \<open>i\<close>, the tags agree, the tag is one of
  the six and the engine's factory answers a value.  \<open>engineValue\<close> is that value.
\<close>

fun paramPasses ::
  "('a \<Rightarrow> string + 'v) \<Rightarrow> string list \<Rightarrow> nat \<Rightarrow> 'a FunctionParameterCapsle option \<Rightarrow> bool" where
  "paramPasses NewValue parmTypes i None = False"
| "paramPasses NewValue parmTypes i (Some item) =
     (i < length parmTypes \<and> CType item = parmTypes ! i \<and> supportedTag (CType item)
        \<and> isl (NewValue (Value item)) = False)"

definition engineValue :: "('a \<Rightarrow> string + 'v) \<Rightarrow> 'a FunctionParameterCapsle option \<Rightarrow> 'v" where
  "engineValue NewValue p = projr (NewValue (Value (the p)))"

text \<open>A sample engine factory for concrete runs: it accepts every integer.\<close>

definition engineNewValueOk :: "int \<Rightarrow> string + int" where
  "engineNewValueOk v = Inr v"

section \<open>Engine values, host callbacks and promises\<close>

text \<open>
  The host functions that the pipeline binds into the engine: the methods of the request
  context handed to \<^verbatim>\<open>v8.NewFunctionTemplate\<close>, and the three closures
  \<^verbatim>\<open>isConnected\<close>, \<^verbatim>\<open>funcFinal\<close> and \<^verbatim>\<open>throwProm\<close>.
\<close>

datatype host_function =
    ResolveFunctionCallbackV8
  | RejectFunctionCallbackV8
  | IsConnectedCallback
  | FuncFinal
  | ThrowProm
  | ProxyShield_ConsoleLog
  | ProxyShield_ErrorLog
  | ProxyShield_ClearInterval
  | ProxyShield_ClearTimeout
  | ProxyShield_SetInterval
  | ProxyShield_SetTimeout
  | ProxyShield_NewPromise
  | TestWait

text \<open>
  A promise is the one a script function returned (a handle), or the result of
  \<^verbatim>\<open>Then\<close> with two callbacks, or of \<^verbatim>\<open>Catch\<close> with one, on an earlier promise.
  Its state is read by \<^verbatim>\<open>prom.State()\<close> at each poll.
\<close>

datatype promise_state = Pending | Fulfilled | Rejected

datatype promise =
    ScriptPromise nat
  | Then promise host_function host_function
  | Catch promise host_function

text \<open>
  Engine values as far as the pipeline builds and inspects them.  An object (and an
  object template, which \<^verbatim>\<open>NewInstance\<close> turns into an object with the same
  properties) is the list of its properties; \<^verbatim>\<open>Set\<close> on it is \<open>AList.update\<close>.
\<close>

datatype js_value =
    JSUndefined
  | JSBool bool
  | JSNumber int
  | JSString string
  | JSArray "js_value list"
  | JSObject "(string \<times> js_value) list"
  | JSHostFunction host_function
  | JSScriptFunction string
  | JSPromise promise

definition IsPromise :: "js_value \<Rightarrow> bool" where
  "IsPromise v = (case v of JSPromise prom \<Rightarrow> True | _ \<Rightarrow> False)"

text \<open>The binding's \<^verbatim>\<open>AsPromise\<close> fails exactly on a value that is not a promise.\<close>

definition AsPromise :: "js_value \<Rightarrow> string + promise" where
  "AsPromise v = (case v of JSPromise prom \<Rightarrow> Inr prom | _ \<Rightarrow> Inl ''v8go: value must be a promise'')"

section \<open>The request and the engine's failures\<close>

datatype request_type = HTTP_REQUEST | WEBSOCKET_REQUEST | IPC_REQUEST | OTHER_REQUEST nat

record Cookie =
  cookieName :: string
  cookieValue :: string
  cookieDomain :: string
  cookiePath :: string
  cookieRawExpires :: string

text \<open>
  The HTTP part of a request.  \<^verbatim>\<open>Header\<close> is a Go map from a name to its values: the
  list of its entries, in the order the \<^verbatim>\<open>range\<close> visits them, with distinct names.
  The atomic \<^verbatim>\<open>IsConnected\<close> is read by the \<^verbatim>\<open>isConnected\<close> callback when the script
  calls it, so it is an argument of the callback and not a field here.
  \<^verbatim>\<open>ContentLength\<close> is an \<^verbatim>\<open>int64\<close>: an integer from \<open>- 2 ^ 63\<close> to \<open>2 ^ 63 - 1\<close>.
\<close>

record HttpContext =
  Cookies :: "Cookie list"
  Header :: "(string \<times> string list) list"
  ContentLength :: int
  Host :: string
  Proto :: string
  RemoteAddr :: string
  RequestURI :: string

record 'a RpcRequest =
  RequestType :: request_type
  HttpRequest :: "HttpContext option"
  Parms :: "'a FunctionParameterCapsle option list"

text \<open>
  Every engine call whose error the source inspects is a site; the engine is a
  parameter \<open>eng\<close> that answers, for a site, the error message or \<open>None\<close> for success.
  Sites inside a loop carry the loop's data.  Calls whose error the source drops
  (\<^verbatim>\<open>cookieObject.Set\<close>, the array's \<^verbatim>\<open>push\<close>) are taken to do what the engine's
  built-in does.
\<close>

datatype engine_site =
    Set_Resolve
  | Set_Reject
  | NewInstance_objTemplate
  | Set_cookie string
  | NewInstance_headersTemplate
  | RunScript_slice string
  | AsObject_slice string
  | NewValue_headerValue string string
  | Set_header string
  | Set_IsConnected
  | Set_ContentLength
  | Set_Host
  | Set_Proto
  | Set_RemoteAddr
  | Set_RequestURI
  | Set_Cookies
  | NewInstance_httpObj
  | Set_Headers
  | Set_http
  | NewValue_rpcConnectionType
  | Set_CallMethode
  | NewValue_IsConnected
  | RunScript_proxyShield
  | AsFunction_proxyShield
  | Set_proxy string
  | NewInstance_proxy

text \<open>The error constructors of \<^verbatim>\<open>utils\<close> that the builders return.\<close>

datatype v8_error =
    V8ObjectWritingError
  | V8ObjectInstanceCreatingError
  | MakeV8Error string string
  | MakeRequestTypeIsNotHttpRequest string
  | MakeUnkownMethodeError string

section \<open>Request object builder: \<^verbatim>\<open>v8makeSharedFunctionObject\<close>\<close>

text \<open>The loop over the cookies; the four \<^verbatim>\<open>cookieObject.Set\<close> results are dropped.\<close>

fun cookiesLoop ::
  "(engine_site \<Rightarrow> string option) \<Rightarrow> Cookie list \<Rightarrow> (string \<times> js_value) list
     \<Rightarrow> v8_error + (string \<times> js_value) list" where
  "cookiesLoop eng [] cookies = Inr cookies"
| "cookiesLoop eng (item # rest) cookies =
     (let cookieObject =
            [(''Value'', JSString (cookieValue item)),
             (''Domain'', JSString (cookieDomain item)),
             (''Path'', JSString (cookiePath item)),
             (''Expires'', JSString (cookieRawExpires item))]
      in case eng (Set_cookie (cookieName item)) of
           Some err \<Rightarrow> Inl (MakeV8Error ''v8makeSharedFunctionObject'' err)
         | None \<Rightarrow>
             cookiesLoop eng rest (AList.update (cookieName item) (JSObject cookieObject) cookies))"

text \<open>
  The inner loop over the values of header \<open>k\<close>: each value becomes an engine string
  and is pushed on the slice.
\<close>

fun headerValuesLoop ::
  "(engine_site \<Rightarrow> string option) \<Rightarrow> string \<Rightarrow> string list \<Rightarrow> js_value list
     \<Rightarrow> v8_error + js_value list" where
  "headerValuesLoop eng k [] sliceObject = Inr sliceObject"
| "headerValuesLoop eng k (value # rest) sliceObject =
     (case eng (NewValue_headerValue k value) of
        Some err \<Rightarrow> Inl (MakeV8Error ''v8makeSharedFunctionObject'' err)
      | None \<Rightarrow> headerValuesLoop eng k rest (sliceObject @ [JSString value]))"

text \<open>
  The outer loop over the header map: a fresh empty array from \<^verbatim>\<open>slice.js\<close>, the
  values pushed, then \<^verbatim>\<open>headers.Set(k, sliceObject)\<close>.
\<close>

fun headersLoop ::
  "(engine_site \<Rightarrow> string option) \<Rightarrow> (string \<times> string list) list
     \<Rightarrow> (string \<times> js_value) list \<Rightarrow> v8_error + (string \<times> js_value) list" where
  "headersLoop eng [] headers = Inr headers"
| "headersLoop eng ((k, v) # rest) headers =
     (case eng (RunScript_slice k) of
        Some err \<Rightarrow> Inl (MakeV8Error ''v8makeSharedFunctionObject'' err)
      | None \<Rightarrow>
     (case eng (AsObject_slice k) of
        Some err \<Rightarrow> Inl (MakeV8Error ''v8makeSharedFunctionObject'' err)
      | None \<Rightarrow>
     (case headerValuesLoop eng k v [] of
        Inl e \<Rightarrow> Inl e
      | Inr sliceObject \<Rightarrow>
     (case eng (Set_header k) of
        Some err \<Rightarrow> Inl (MakeV8Error ''v8makeSharedFunctionObject'' err)
      | None \<Rightarrow> headersLoop eng rest (AList.update k (JSArray sliceObject) headers)))))"

text \<open>
  The conversion \<^verbatim>\<open>float64(n)\<close> of an \<^verbatim>\<open>int64\<close>: the nearest number with a mantissa
  of 53 bits, ties to the even mantissa.  The result is again an integer, and it is \<open>n\<close>
  itself up to \<open>2 ^ 53\<close> in absolute value.  \<open>mantissaShift a\<close> is the number of low
  bits that do not fit, at most 11 for an \<^verbatim>\<open>int64\<close>.
\<close>

definition mantissaShift :: "int \<Rightarrow> nat" where
  "mantissaShift a = length (filter (\<lambda>k. 2 ^ (53 + k) \<le> a) [0..<11])"

definition float64 :: "int \<Rightarrow> int" where
  "float64 n =
     (let a = \<bar>n\<bar>;
          s = mantissaShift a;
          q = a div 2 ^ s;
          r = a mod 2 ^ s;
          m = (if 2 ^ s < 2 * r \<or> (2 * r = 2 ^ s \<and> odd q) then q + 1 else q)
      in sgn n * (m * 2 ^ s))"

text \<open>
  The checked \<^verbatim>\<open>Set\<close> calls of the \<^verbatim>\<open>http\<close> template and object, in the source's
  order: the first failing site decides the error.  An engine number is written with the
  integer it equals.
\<close>

fun firstFailure :: "(engine_site \<Rightarrow> string option) \<Rightarrow> engine_site list \<Rightarrow> string option" where
  "firstFailure eng [] = None"
| "firstFailure eng (s # rest) =
     (case eng s of Some err \<Rightarrow> Some err | None \<Rightarrow> firstFailure eng rest)"

definition httpCase ::
  "(engine_site \<Rightarrow> string option) \<Rightarrow> HttpContext \<Rightarrow> v8_error + js_value" where
  "httpCase eng h =
     (case cookiesLoop eng (Cookies h) [] of
        Inl e \<Rightarrow> Inl e
      | Inr cookies \<Rightarrow>
     (case eng NewInstance_headersTemplate of
        Some err \<Rightarrow> Inl (MakeV8Error ''v8makeSharedFunctionObject'' err)
      | None \<Rightarrow>
     (case headersLoop eng (Header h) [] of
        Inl e \<Rightarrow> Inl e
      | Inr headers \<Rightarrow>
     (case firstFailure eng
             [Set_IsConnected, Set_ContentLength, Set_Host, Set_Proto, Set_RemoteAddr,
              Set_RequestURI, Set_Cookies, NewInstance_httpObj, Set_Headers] of
        Some err \<Rightarrow> Inl (MakeV8Error ''v8makeSharedFunctionObject'' err)
      | None \<Rightarrow>
          Inr (JSObject
            [(''IsConnected'', JSHostFunction IsConnectedCallback),
             (''ContentLength'', JSNumber (float64 (ContentLength h))),
             (''Host'', JSString (Host h)),
             (''Proto'', JSString (Proto h)),
             (''RemoteAddr'', JSString (RemoteAddr h)),
             (''RequestURI'', JSString (RequestURI h)),
             (''Cookies'', JSObject cookies),
             (''Headers'', JSObject headers)])))))"

text \<open>The tail of the function: the \<^verbatim>\<open>CallMethode\<close> entry.\<close>

definition setCallMethode ::
  "(engine_site \<Rightarrow> string option) \<Rightarrow> (string \<times> js_value) list \<Rightarrow> string
     \<Rightarrow> v8_error + js_value" where
  "setCallMethode eng obj rpcConnectionType =
     (case eng NewValue_rpcConnectionType of
        Some err \<Rightarrow> Inl (MakeV8Error ''v8makeSharedFunctionObject'' err)
      | None \<Rightarrow>
     (case eng Set_CallMethode of
        Some err \<Rightarrow> Inl (MakeV8Error ''v8makeSharedFunctionObject'' err)
      | None \<Rightarrow> Inr (JSObject (AList.update ''CallMethode'' (JSString rpcConnectionType) obj))))"

text \<open>
  \<^verbatim>\<open>rpcrequest.IsHttpRequest\<close> is not among the sources: its answer is the parameter
  \<open>isHttpRequest\<close>.  When it answers true on a request without its HTTP part, reading
  \<^verbatim>\<open>rrpcrequest.HttpRequest.Cookies\<close> dereferences nil.
\<close>

definition v8makeSharedFunctionObject ::
  "(engine_site \<Rightarrow> string option) \<Rightarrow> bool \<Rightarrow> 'a RpcRequest \<Rightarrow> (v8_error + js_value) outcome" where
  "v8makeSharedFunctionObject eng isHttpRequest rrpcrequest =
     (case eng Set_Resolve of
        Some err \<Rightarrow> Return (Inl V8ObjectWritingError)
      | None \<Rightarrow>
     (case eng Set_Reject of
        Some err \<Rightarrow> Return (Inl V8ObjectWritingError)
      | None \<Rightarrow>
     (case eng NewInstance_objTemplate of
        Some err \<Rightarrow> Return (Inl V8ObjectWritingError)
      | None \<Rightarrow>
     (let obj = [(''Resolve'', JSHostFunction ResolveFunctionCallbackV8),
                 (''Reject'', JSHostFunction RejectFunctionCallbackV8)]
      in case RequestType rrpcrequest of
           HTTP_REQUEST \<Rightarrow>
             (if \<not> isHttpRequest
                then Return (Inl (MakeRequestTypeIsNotHttpRequest ''v8makeSharedFunctionObject''))
              else case HttpRequest rrpcrequest of
                None \<Rightarrow> Panic NilDereference
              | Some h \<Rightarrow>
                 (case httpCase eng h of
                    Inl e \<Rightarrow> Return (Inl e)
                  | Inr http \<Rightarrow>
                 (case eng Set_http of
                    Some err \<Rightarrow> Return (Inl (MakeV8Error ''v8makeSharedFunctionObject'' err))
                  | None \<Rightarrow>
                      Return (setCallMethode eng (AList.update ''http'' http obj) ''http''))))
         | WEBSOCKET_REQUEST \<Rightarrow> Return (setCallMethode eng obj ''ws'')
         | IPC_REQUEST \<Rightarrow> Return (setCallMethode eng obj ''ipc'')
         | OTHER_REQUEST n \<Rightarrow>
             Return (Inl (MakeUnkownMethodeError ''v8makeSharedFunctionObject''))))))"

text \<open>Reading a property, and a path of properties, of an engine object.\<close>

definition getProperty :: "js_value \<Rightarrow> string \<Rightarrow> js_value option" where
  "getProperty v k = (case v of JSObject props \<Rightarrow> map_of props k | _ \<Rightarrow> None)"

text \<open>A sample engine for concrete runs: every call succeeds.\<close>

definition engineOk :: "engine_site \<Rightarrow> string option" where
  "engineOk s = None"

section \<open>Tasks of the engine loop and what their bodies do\<close>

text \<open>
  \<^verbatim>\<open>types.FunctionCallState\<close> with the two fields the pipeline writes.
\<close>

record FunctionCallState =
  Error :: string
  State :: string

text \<open>
  Each closure handed to \<^verbatim>\<open>eventloop.NewKernelEventLoopFunctionOperation\<close> is a task,
  with the values it captures: the five steps of the call, and the bare re-check that
  the poll submits from its goroutine.
\<close>

datatype task =
    InitTask
  | ProxyObjectPrepareTask js_value "js_value list"
  | CallTask js_value "js_value list"
  | PromiseOperationTask js_value
  | FinallTask promise
  | CheckTask promise

text \<open>
  The three terminators of the request context, as the pipeline calls them:
  \<^verbatim>\<open>request.functionCallFinal()\<close>, \<^verbatim>\<open>request.functionCallException(msg)\<close> and
  \<^verbatim>\<open>writeRequestReturnResponse(request, state)\<close>.
\<close>

datatype terminator =
    FunctionCallFinal
  | FunctionCallException string
  | WriteRequestReturnResponse FunctionCallState

text \<open>
  What a body or a callback does to the world, in order: submitting a task to the
  kernel's loop, starting a goroutine (with what it does), sleeping (in milliseconds),
  the engine's microtask checkpoint, the task's two setters, calling a script function,
  throwing into the engine, and calling a terminator of the request context.
\<close>

datatype effect =
    AddToEventLoop task
  | GoRoutine "effect list"
  | TimeSleep nat
  | PerformMicrotaskCheckpoint
  | SetError string
  | SetResult
  | CallFunction js_value "js_value list"
  | V8ContextThrow string
  | Terminator terminator

text \<open>
  \<^verbatim>\<open>o.kernel.AddToEventLoop\<close> is the kernel's: its answer for a task is the parameter
  \<open>add\<close>, \<open>None\<close> for success, a \<^verbatim>\<open>*types.SpecificError\<close> or any other error.
\<close>

datatype kernel_error = SpecificError string | OtherError string

text \<open>
  The tail shared by the five \<^verbatim>\<open>functionCallInEventloop...\<close> functions: submit the
  task; a specific error is returned as it is, the message of any other is wrapped by
  \<^verbatim>\<open>fmt.Errorf(prefix + err.Error())\<close> (all five use the same prefix).
\<close>

definition submitToEventLoop ::
  "(task \<Rightarrow> kernel_error option) \<Rightarrow> task \<Rightarrow> effect list \<times> go_error option" where
  "submitToEventLoop add t =
     ([AddToEventLoop t],
      case add t of
        None \<Rightarrow> None
      | Some (SpecificError e) \<Rightarrow> Some (ReturnedSpecificError e)
      | Some (OtherError m) \<Rightarrow> Some (Errorf (''functionCallInEventloopFinall: '' @ m)))"

subsection \<open>The poll: \<^verbatim>\<open>callInKernelEventLoopCheck\<close>\<close>

text \<open>
  The function reads the promise's state \<open>st\<close>.  It answers what it did and the error
  it returns.  In the goroutine the result of \<^verbatim>\<open>AddToEventLoop\<close> is dropped.
\<close>

definition callInKernelEventLoopCheck ::
  "promise \<Rightarrow> promise_state \<Rightarrow> effect list \<times> string option" where
  "callInKernelEventLoopCheck prom st =
     (case st of
        Pending \<Rightarrow> ([GoRoutine [TimeSleep 1, AddToEventLoop (CheckTask prom)]], None)
      | Rejected \<Rightarrow> ([PerformMicrotaskCheckpoint], None)
      | Fulfilled \<Rightarrow> ([], None))"

text \<open>
  A body's run: what it did, and the panic that ended it, if any.
  The body of the re-check task drops the function's result and calls no setter.
\<close>

definition checkTaskBody :: "promise \<Rightarrow> promise_state \<Rightarrow> effect list \<times> go_panic option" where
  "checkTaskBody prom st = (fst (callInKernelEventLoopCheck prom st), None)"

subsection \<open>Step 5: \<^verbatim>\<open>functionCallInEventloopFinall\<close>\<close>

definition finallTaskBody :: "promise \<Rightarrow> promise_state \<Rightarrow> effect list \<times> go_panic option" where
  "finallTaskBody prom st =
     (let (done, err) = callInKernelEventLoopCheck prom st
      in (done @ (case err of Some e \<Rightarrow> [SetError e] | None \<Rightarrow> []) @ [SetResult], None))"

definition functionCallInEventloopFinall ::
  "(task \<Rightarrow> kernel_error option) \<Rightarrow> promise \<Rightarrow> effect list \<times> go_error option" where
  "functionCallInEventloopFinall add prom = submitToEventLoop add (FinallTask prom)"

subsection \<open>Step 4: \<^verbatim>\<open>functionCallInEventloopPromiseOperation\<close>\<close>

text \<open>
  The two callbacks.  \<open>toString\<close> is the engine's \<^verbatim>\<open>String()\<close> of a value;
  \<^verbatim>\<open>info.Args()[0]\<close> faults when the engine passes no argument.  Each answers what it
  did and the value it returns to the engine.
\<close>

definition funcFinal :: "js_value list \<Rightarrow> (effect list \<times> js_value) outcome" where
  "funcFinal args = Return ([Terminator FunctionCallFinal], JSUndefined)"

definition throwProm ::
  "(js_value \<Rightarrow> string) \<Rightarrow> js_value list \<Rightarrow> (effect list \<times> js_value) outcome" where
  "throwProm toString args =
     (case args of
        [] \<Rightarrow> Panic (IndexOutOfRange 0 0)
      | reason # rest \<Rightarrow> Return ([Terminator (FunctionCallException (toString reason))], JSUndefined))"

text \<open>
  The body behind a host function, for the two callbacks defined in these sources.
\<close>

definition hostFunctionBody ::
  "(js_value \<Rightarrow> string) \<Rightarrow> host_function
     \<Rightarrow> (js_value list \<Rightarrow> (effect list \<times> js_value) outcome) option" where
  "hostFunctionBody toString f =
     (case f of
        FuncFinal \<Rightarrow> Some funcFinal
      | ThrowProm \<Rightarrow> Some (throwProm toString)
      | _ \<Rightarrow> None)"

definition promiseOperationTaskBody ::
  "(task \<Rightarrow> kernel_error option) \<Rightarrow> js_value \<Rightarrow> effect list \<times> go_panic option" where
  "promiseOperationTaskBody add result =
     (if \<not> IsPromise result then ([], Some (PanicValue ''isnr promise''))
      else case AsPromise result of
        Inl err \<Rightarrow> ([], Some (PanicValue err))
      | Inr prom \<Rightarrow>
          (let prom1 = Then prom FuncFinal ThrowProm;
               prom2 = Catch prom1 ThrowProm;
               (done, err) = functionCallInEventloopFinall add prom2
           in if err \<noteq> None then (done, None) else (done @ [SetResult], None)))"

definition functionCallInEventloopPromiseOperation ::
  "(task \<Rightarrow> kernel_error option) \<Rightarrow> js_value \<Rightarrow> effect list \<times> go_error option" where
  "functionCallInEventloopPromiseOperation add result =
     submitToEventLoop add (PromiseOperationTask result)"

subsection \<open>Step 3: \<^verbatim>\<open>functionCallInEventloop\<close>\<close>

text \<open>
  \<open>called\<close> is the engine's answer to \<^verbatim>\<open>proxFunction.Call\<close>: the error of a script
  that threw, or the value returned.
\<close>

definition callTaskBody ::
  "(task \<Rightarrow> kernel_error option) \<Rightarrow> string + js_value \<Rightarrow> js_value \<Rightarrow> js_value list
     \<Rightarrow> effect list \<times> go_panic option" where
  "callTaskBody add called proxFunction proxArguments =
     (case called of
        Inl err \<Rightarrow> ([CallFunction proxFunction proxArguments], Some (PanicValue err))
      | Inr result \<Rightarrow>
          (let (done, err) = functionCallInEventloopPromiseOperation add result
           in if err \<noteq> None then (CallFunction proxFunction proxArguments # done, None)
              else (CallFunction proxFunction proxArguments # done @ [SetResult], None)))"

definition functionCallInEventloop ::
  "(task \<Rightarrow> kernel_error option) \<Rightarrow> js_value \<Rightarrow> js_value list
     \<Rightarrow> effect list \<times> go_error option" where
  "functionCallInEventloop add proxFunction proxArguments =
     submitToEventLoop add (CallTask proxFunction proxArguments)"

subsection \<open>Step 2: \<^verbatim>\<open>functionCallInEventloopProxyObjectPrepare\<close>\<close>

text \<open>\<^verbatim>\<open>v8makeProxyForRPCCall\<close>: ten checked \<^verbatim>\<open>Set\<close> calls, then the instance.\<close>

definition v8makeProxyForRPCCall :: "(engine_site \<Rightarrow> string option) \<Rightarrow> v8_error + js_value" where
  "v8makeProxyForRPCCall eng =
     (case firstFailure eng
             [Set_proxy ''proxyShieldConsoleLog'', Set_proxy ''proxyShieldErrorLog'',
              Set_proxy ''clearInterval'', Set_proxy ''clearTimeout'',
              Set_proxy ''setInterval'', Set_proxy ''setTimeout'',
              Set_proxy ''resolve'', Set_proxy ''reject'', Set_proxy ''newPromise'',
              Set_proxy ''wait''] of
        Some err \<Rightarrow> Inl V8ObjectWritingError
      | None \<Rightarrow>
     (case eng NewInstance_proxy of
        Some err \<Rightarrow> Inl V8ObjectInstanceCreatingError
      | None \<Rightarrow>
          Inr (JSObject
            [(''proxyShieldConsoleLog'', JSHostFunction ProxyShield_ConsoleLog),
             (''proxyShieldErrorLog'', JSHostFunction ProxyShield_ErrorLog),
             (''clearInterval'', JSHostFunction ProxyShield_ClearInterval),
             (''clearTimeout'', JSHostFunction ProxyShield_ClearTimeout),
             (''setInterval'', JSHostFunction ProxyShield_SetInterval),
             (''setTimeout'', JSHostFunction ProxyShield_SetTimeout),
             (''resolve'', JSHostFunction ResolveFunctionCallbackV8),
             (''reject'', JSHostFunction RejectFunctionCallbackV8),
             (''newPromise'', JSHostFunction ProxyShield_NewPromise),
             (''wait'', JSHostFunction TestWait)])))"

text \<open>
  \<open>v8Function\<close> is the shared function's callable \<^verbatim>\<open>o.v8Function\<close>; the script
  \<^verbatim>\<open>rpc_function_call_proxy_shield.js\<close> evaluates to the wrapper.
\<close>

definition proxyObjectPrepareTaskBody ::
  "(engine_site \<Rightarrow> string option) \<Rightarrow> (task \<Rightarrow> kernel_error option) \<Rightarrow> js_value \<Rightarrow> js_value
     \<Rightarrow> js_value list \<Rightarrow> effect list \<times> go_panic option" where
  "proxyObjectPrepareTaskBody eng add v8Function requestObj convertedValues =
     (let finalArguments = requestObj # convertedValues
      in case eng RunScript_proxyShield of
           Some err \<Rightarrow> ([], None)
         | None \<Rightarrow>
        (case eng AsFunction_proxyShield of
           Some err \<Rightarrow> ([], None)
         | None \<Rightarrow>
        (case v8makeProxyForRPCCall eng of
           Inl err \<Rightarrow> ([], None)
         | Inr proxyObject \<Rightarrow>
            (let proxArguments = [v8Function, proxyObject] @ finalArguments;
                 (done, err) = functionCallInEventloop add
                    (JSScriptFunction ''rpc_function_call_proxy_shield.js'') proxArguments
             in if err \<noteq> None then (done, None) else (done @ [SetResult], None)))))"

definition functionCallInEventloopProxyObjectPrepare ::
  "(task \<Rightarrow> kernel_error option) \<Rightarrow> js_value \<Rightarrow> js_value list
     \<Rightarrow> effect list \<times> go_error option" where
  "functionCallInEventloopProxyObjectPrepare add requestObj convertedValues =
     submitToEventLoop add (ProxyObjectPrepareTask requestObj convertedValues)"

subsection \<open>Step 1: \<^verbatim>\<open>functionCallInEventloopInit\<close>\<close>

text \<open>\<open>signatureParams\<close> is \<^verbatim>\<open>o.signature.Params\<close>.\<close>

definition initTaskBody ::
  "('a \<Rightarrow> string + js_value) \<Rightarrow> (engine_site \<Rightarrow> string option) \<Rightarrow> bool
     \<Rightarrow> (task \<Rightarrow> kernel_error option) \<Rightarrow> string list \<Rightarrow> 'a RpcRequest
     \<Rightarrow> effect list \<times> go_panic option" where
  "initTaskBody NewValue eng isHttpRequest add signatureParams req =
     (case convertRequestParametersToV8Parameters NewValue signatureParams (Parms req) of
        Panic p \<Rightarrow> ([], Some p)
      | Return (Inl err) \<Rightarrow> ([], None)
      | Return (Inr convertedValues) \<Rightarrow>
     (case v8makeSharedFunctionObject eng isHttpRequest req of
        Panic p \<Rightarrow> ([], Some p)
      | Return (Inl err) \<Rightarrow> ([], None)
      | Return (Inr requestObj) \<Rightarrow>
          (let (done, err) = functionCallInEventloopProxyObjectPrepare add requestObj convertedValues
           in if err \<noteq> None then (done, None) else (done @ [SetResult], None))))"

definition functionCallInEventloopInit ::
  "(task \<Rightarrow> kernel_error option) \<Rightarrow> effect list \<times> go_error option" where
  "functionCallInEventloopInit add = submitToEventLoop add InitTask"

subsection \<open>The \<^verbatim>\<open>isConnected\<close> callback of the request object\<close>


text \<open>A sample kernel for concrete runs: every submission is accepted.\<close>

definition kernelOk :: "task \<Rightarrow> kernel_error option" where
  "kernelOk t = None"

text \<open>A sample engine factory over engine values: it accepts every value.\<close>

definition engineNewValueJs :: "js_value \<Rightarrow> string + js_value" where
  "engineNewValueJs v = Inr v"

text \<open>
  Read off a list of effects, at any depth of goroutines: the terminator calls, the
  calls of \<^verbatim>\<open>klopr.SetError\<close>, and the submitted tasks.
\<close>

fun terminatorCalls :: "effect \<Rightarrow> terminator list" where
  "terminatorCalls (GoRoutine es) = concat (map terminatorCalls es)"
| "terminatorCalls (Terminator t) = [t]"
| "terminatorCalls e = []"

fun setErrorCalls :: "effect \<Rightarrow> string list" where
  "setErrorCalls (GoRoutine es) = concat (map setErrorCalls es)"
| "setErrorCalls (SetError e) = [e]"
| "setErrorCalls e = []"

fun submittedTasks :: "effect \<Rightarrow> task list" where
  "submittedTasks (GoRoutine es) = concat (map submittedTasks es)"
| "submittedTasks (AddToEventLoop t) = [t]"
| "submittedTasks e = []"

section \<open>Request context: the terminal guard\<close>











section \<open>Sample inputs for concrete runs\<close>

text \<open>
  An HTTP request with the header \<open>X-F\<close> of two values, the single-valued header
  \<open>Host\<close> and one cookie, and the request object the builder makes of it on an engine
  that never fails.
\<close>

definition sampleHttpContext :: HttpContext where
  "sampleHttpContext =
     \<lparr>Cookies = [\<lparr>cookieName = ''s'', cookieValue = ''1'', cookieDomain = ''d'',
                  cookiePath = ''/'', cookieRawExpires = ''e''\<rparr>],
      Header = [(''X-F'', [''a'', ''b'']), (''Host'', [''h''])],
      ContentLength = 0, Host = ''h'', Proto = ''HTTP/1.1'', RemoteAddr = ''r'',
      RequestURI = ''/''\<rparr>"

definition sampleHttpRequest :: "js_value RpcRequest" where
  "sampleHttpRequest =
     \<lparr>RequestType = HTTP_REQUEST, HttpRequest = Some sampleHttpContext, Parms = []\<rparr>"

definition sampleRequestObj :: js_value where
  "sampleRequestObj =
     JSObject
       [(''Resolve'', JSHostFunction ResolveFunctionCallbackV8),
        (''Reject'', JSHostFunction RejectFunctionCallbackV8),
        (''http'',
         JSObject
           [(''IsConnected'', JSHostFunction IsConnectedCallback),
            (''ContentLength'', JSNumber 0), (''Host'', JSString ''h''),
            (''Proto'', JSString ''HTTP/1.1''), (''RemoteAddr'', JSString ''r''),
            (''RequestURI'', JSString ''/''),
            (''Cookies'',
             JSObject
               [(''s'',
                 JSObject
                   [(''Value'', JSString ''1''), (''Domain'', JSString ''d''),
                    (''Path'', JSString ''/''), (''Expires'', JSString ''e'')])]),
            (''Headers'',
             JSObject
               [(''X-F'', JSArray [JSString ''a'', JSString ''b'']),
                (''Host'', JSArray [JSString ''h''])])]),
        (''CallMethode'', JSString ''http'')]"

section \<open>Properties of the value marshaller\<close>

lemma convertLoop_pass_step:
  assumes "paramPasses NewValue parmTypes h p"
  shows "convertLoop NewValue parmTypes h (p # rest) acc =
         convertLoop NewValue parmTypes (Suc h) rest (acc @ [engineValue NewValue p])"
proof -
  from assms obtain item where p: "p = Some item" by (cases p) auto
  from assms p obtain val where v: "NewValue (Value item) = Inr val"
    by (cases "NewValue (Value item)") auto
  from assms p v show ?thesis
    by (auto simp: supportedTag_def engineValue_def Let_def)
qed

lemma convertLoop_prefix:
  "\<forall>j<length pre. paramPasses NewValue parmTypes (h + j) (pre ! j) \<Longrightarrow>
   convertLoop NewValue parmTypes h (pre @ rest) acc =
   convertLoop NewValue parmTypes (h + length pre) rest (acc @ map (engineValue NewValue) pre)"
proof (induction pre arbitrary: h acc)
  case Nil
  then show ?case by simp
next
  case (Cons p pre)
  from Cons.prems have p0: "paramPasses NewValue parmTypes h p" by force
  have tl: "\<forall>j<length pre. paramPasses NewValue parmTypes (Suc h + j) (pre ! j)"
  proof (intro allI impI)
    fix j assume "j < length pre"
    with Cons.prems have "paramPasses NewValue parmTypes (h + Suc j) ((p # pre) ! Suc j)"
      by (metis Suc_less_eq length_Cons) 
    then show "paramPasses NewValue parmTypes (Suc h + j) (pre ! j)" by simp
  qed
  show ?case
    using convertLoop_pass_step[OF p0] Cons.IH[OF tl] by simp
qed


lemma convertLoop_fail_step:
  assumes "h < length parmTypes" and "\<not> paramPasses NewValue parmTypes h (Some item)"
  shows "\<exists>err. convertLoop NewValue parmTypes h (Some item # rest) acc = Return (Inl err)"
  using assms
  by (cases "NewValue (Value item)") (auto simp: supportedTag_def Let_def)

lemma convertLoop_fault_iff:
  "h \<le> length parmTypes \<Longrightarrow>
   (convertLoop NewValue parmTypes h ps acc = Panic (IndexOutOfRange i n)) =
   (i = length parmTypes \<and> n = length parmTypes \<and> length parmTypes - h < length ps
      \<and> (\<forall>j<length parmTypes - h. paramPasses NewValue parmTypes (h + j) (ps ! j))
      \<and> ps ! (length parmTypes - h) \<noteq> None)"
proof (induction ps arbitrary: h acc)
  case Nil
  then show ?case by simp
next
  case (Cons p rest)
  show ?case
  proof (cases p)
    case None
    show ?thesis
    proof (cases "h = length parmTypes")
      case True
      with None show ?thesis by simp
    next
      case False
      with Cons.prems have "0 < length parmTypes - h" by simp
      moreover have "\<not> paramPasses NewValue parmTypes (h + 0) ((p # rest) ! 0)"
        using None by simp
      ultimately have "\<not> (\<forall>j<length parmTypes - h.
          paramPasses NewValue parmTypes (h + j) ((p # rest) ! j))" by blast
      with None show ?thesis by simp
    qed
  next
    case (Some item)
    show ?thesis
    proof (cases "h = length parmTypes")
      case True
      with Some show ?thesis by auto
    next
      case False
      with Cons.prems have lt: "h < length parmTypes" by simp
      then obtain d where d: "length parmTypes - h = Suc d" and d': "length parmTypes - Suc h = d"
        by (cases "length parmTypes - h") auto
      show ?thesis
      proof (cases "paramPasses NewValue parmTypes h p")
        case True
        have shift: "(\<forall>j<Suc d. paramPasses NewValue parmTypes (h + j) ((p # rest) ! j)) =
                     (\<forall>j<d. paramPasses NewValue parmTypes (Suc h + j) (rest ! j))"
        proof
          assume a: "\<forall>j<Suc d. paramPasses NewValue parmTypes (h + j) ((p # rest) ! j)"
          show "\<forall>j<d. paramPasses NewValue parmTypes (Suc h + j) (rest ! j)"
          proof (intro allI impI)
            fix j assume "j < d"
            then have "paramPasses NewValue parmTypes (h + Suc j) ((p # rest) ! Suc j)"
              using a by (metis Suc_less_eq)
            then show "paramPasses NewValue parmTypes (Suc h + j) (rest ! j)" by simp
          qed
        next
          assume a: "\<forall>j<d. paramPasses NewValue parmTypes (Suc h + j) (rest ! j)"
          show "\<forall>j<Suc d. paramPasses NewValue parmTypes (h + j) ((p # rest) ! j)"
          proof (intro allI impI)
            fix j assume j: "j < Suc d"
            show "paramPasses NewValue parmTypes (h + j) ((p # rest) ! j)"
            proof (cases j)
              case 0
              with True show ?thesis by simp
            next
              case (Suc j')
              with j a have "paramPasses NewValue parmTypes (Suc h + j') (rest ! j')" by simp
              with Suc show ?thesis by simp
            qed
          qed
        qed
        have "Suc h \<le> length parmTypes" using lt by simp
        from Cons.IH[OF this, of "acc @ [engineValue NewValue p]"]
        show ?thesis
          unfolding convertLoop_pass_step[OF True] d d' shift by simp
      next
        case False
        with Some lt obtain err where
          "convertLoop NewValue parmTypes h (p # rest) acc = Return (Inl err)"
          using convertLoop_fail_step by blast
        moreover have "\<not> (\<forall>j<length parmTypes - h.
            paramPasses NewValue parmTypes (h + j) ((p # rest) ! j))"
        proof
          assume "\<forall>j<length parmTypes - h. paramPasses NewValue parmTypes (h + j) ((p # rest) ! j)"
          then have "paramPasses NewValue parmTypes (h + 0) ((p # rest) ! 0)"
            using d by (metis zero_less_Suc)
          with False show False by simp
        qed
        ultimately show ?thesis by simp
      qed
    qed
  qed
qed

lemma convertLoop_total:
  "length ps + h \<le> length parmTypes \<Longrightarrow> None \<notin> set ps \<Longrightarrow>
   \<exists>r. convertLoop NewValue parmTypes h ps acc = Return r"
proof (induction ps arbitrary: h acc)
  case Nil
  then show ?case by simp
next
  case (Cons p rest)
  from Cons.prems obtain item where p: "p = Some item" by (cases p) auto
  from Cons.prems have lt: "h < length parmTypes" by simp
  show ?case
  proof (cases "paramPasses NewValue parmTypes h p")
    case True
    from Cons.prems have "length rest + Suc h \<le> length parmTypes" "None \<notin> set rest" by auto
    from Cons.IH[OF this] show ?thesis
      unfolding convertLoop_pass_step[OF True] by blast
  next
    case False
    with p lt show ?thesis using convertLoop_fail_step by blast
  qed
qed


lemma convertLoop_unsupported_step:
  assumes "h < length parmTypes" and "parmTypes ! h = CType item"
    and "\<not> supportedTag (CType item)"
  shows "convertLoop NewValue parmTypes h (Some item # rest) acc =
         Return (Inl (Errorf ''convertRequestParametersToV8Parameters: unsuported datatype''))"
  using assms by (simp add: supportedTag_def Let_def)

lemma convertLoop_engine_error_step:
  assumes "h < length parmTypes" and "parmTypes ! h = CType item"
    and "supportedTag (CType item)" and "NewValue (Value item) = Inl err"
  shows "convertLoop NewValue parmTypes h (Some item # rest) acc =
         Return (Inl (Errorf (''convertRequestParametersToV8Parameters: '' @ err)))"
  using assms by (auto simp: supportedTag_def Let_def)

lemma convert_upto:
  assumes "i \<le> length reqparms"
    and "\<forall>j<i. paramPasses NewValue parmTypes j (reqparms ! j)"
  shows "convertRequestParametersToV8Parameters NewValue parmTypes reqparms =
         convertLoop NewValue parmTypes i (drop i reqparms)
           (map (engineValue NewValue) (take i reqparms))"
proof -
  have "\<forall>j<length (take i reqparms).
          paramPasses NewValue parmTypes (0 + j) (take i reqparms ! j)"
    using assms by simp
  from convertLoop_prefix[OF this, of "drop i reqparms" "[]"] assms(1)
  show ?thesis
    by (simp add: convertRequestParametersToV8Parameters_def min_def)
qed

lemma convert_all_pass:
  assumes "\<forall>j<length reqparms. paramPasses NewValue parmTypes j (reqparms ! j)"
  shows "convertRequestParametersToV8Parameters NewValue parmTypes reqparms =
         Return (Inr (map (engineValue NewValue) reqparms))"
  using convert_upto[of "length reqparms" reqparms NewValue parmTypes] assms by simp

lemma convert_first_failure_cases:
  "((\<forall>j<length reqparms. paramPasses NewValue parmTypes j (reqparms ! j)) \<longrightarrow>
      convertRequestParametersToV8Parameters NewValue parmTypes reqparms =
        Return (Inr (map (engineValue NewValue) reqparms)))
   \<and> (\<forall>i item. i < length reqparms \<and> i < length parmTypes \<and> reqparms ! i = Some item
         \<and> (\<forall>j<i. paramPasses NewValue parmTypes j (reqparms ! j)) \<longrightarrow>
       (CType item \<noteq> parmTypes ! i \<longrightarrow>
          convertRequestParametersToV8Parameters NewValue parmTypes reqparms =
            Return (Inl (Errorf ''convertRequestParametersToV8Parameters: not same parameter'')))
     \<and> (CType item = parmTypes ! i \<and> \<not> supportedTag (CType item) \<longrightarrow>
          convertRequestParametersToV8Parameters NewValue parmTypes reqparms =
            Return (Inl (Errorf ''convertRequestParametersToV8Parameters: unsuported datatype'')))
     \<and> (CType item = parmTypes ! i \<and> supportedTag (CType item) \<longrightarrow>
          (\<forall>err. NewValue (Value item) = Inl err \<longrightarrow>
             convertRequestParametersToV8Parameters NewValue parmTypes reqparms =
               Return (Inl (Errorf (''convertRequestParametersToV8Parameters: '' @ err))))))"
proof (intro conjI allI impI)
  assume "\<forall>j<length reqparms. paramPasses NewValue parmTypes j (reqparms ! j)"
  then show "convertRequestParametersToV8Parameters NewValue parmTypes reqparms =
        Return (Inr (map (engineValue NewValue) reqparms))"
    by (rule convert_all_pass)
next
  fix i item
  assume h: "i < length reqparms \<and> i < length parmTypes \<and> reqparms ! i = Some item
         \<and> (\<forall>j<i. paramPasses NewValue parmTypes j (reqparms ! j))"
  then have d: "drop i reqparms = Some item # drop (Suc i) reqparms"
    by (metis Cons_nth_drop_Suc)
  have u: "convertRequestParametersToV8Parameters NewValue parmTypes reqparms =
         convertLoop NewValue parmTypes i (Some item # drop (Suc i) reqparms)
           (map (engineValue NewValue) (take i reqparms))"
    using convert_upto[of i reqparms NewValue parmTypes] h d by simp
  {
    assume "CType item \<noteq> parmTypes ! i"
    with h show "convertRequestParametersToV8Parameters NewValue parmTypes reqparms =
            Return (Inl (Errorf ''convertRequestParametersToV8Parameters: not same parameter''))"
      unfolding u by simp
  }
  {
    assume "CType item = parmTypes ! i \<and> \<not> supportedTag (CType item)"
    then have "parmTypes ! i = CType item" "\<not> supportedTag (CType item)" by metis+
    with h show "convertRequestParametersToV8Parameters NewValue parmTypes reqparms =
            Return (Inl (Errorf ''convertRequestParametersToV8Parameters: unsuported datatype''))"
      unfolding u by (intro convertLoop_unsupported_step) blast+
  }
  {
    fix err
    assume "CType item = parmTypes ! i \<and> supportedTag (CType item)"
      and e: "NewValue (Value item) = Inl err"
    then have "parmTypes ! i = CType item" "supportedTag (CType item)" by metis+
    with h e show "convertRequestParametersToV8Parameters NewValue parmTypes reqparms =
               Return (Inl (Errorf (''convertRequestParametersToV8Parameters: '' @ err)))"
      unfolding u by (intro convertLoop_engine_error_step) blast+
  }
qed

lemma errorfText_without_percent:
  "CHR ''%'' \<notin> set f \<Longrightarrow> errorfText verbs (Errorf f) = Some f"
  by (simp add: errorfText_def formatNoOperands_def)

text \<open>
  Claim C7, as the code has it.  The parameters are scanned in index order.  When every
  parameter passes, the result is the list of their engine values, in order.  At the
  first index \<open>i\<close> that is reached (all earlier parameters passed) and holds a capsule
  within the signature: a tag that differs from \<open>parmTypes ! i\<close> returns no values and
  the fixed error "not same parameter", which carries no index; a matching tag outside
  the six returns the error "unsuported datatype"; a matching tag among the six hands
  the value to the engine's factory, and the factory's error, if any, is returned as
  the error that \<^verbatim>\<open>fmt.Errorf\<close> makes of the function's prefix followed by the
  engine's message.  The two fixed errors read as they are written, and so does the
  wrapped one when the engine's message has no percent sign.
\<close>

theorem convert_params_first_failure:
  "((\<forall>j<length reqparms. paramPasses NewValue parmTypes j (reqparms ! j)) \<longrightarrow>
      convertRequestParametersToV8Parameters NewValue parmTypes reqparms =
        Return (Inr (map (engineValue NewValue) reqparms)))
   \<and> (\<forall>i item. i < length reqparms \<and> i < length parmTypes \<and> reqparms ! i = Some item
         \<and> (\<forall>j<i. paramPasses NewValue parmTypes j (reqparms ! j)) \<longrightarrow>
       (CType item \<noteq> parmTypes ! i \<longrightarrow>
          convertRequestParametersToV8Parameters NewValue parmTypes reqparms =
            Return (Inl (Errorf ''convertRequestParametersToV8Parameters: not same parameter'')))
     \<and> (CType item = parmTypes ! i \<and> \<not> supportedTag (CType item) \<longrightarrow>
          convertRequestParametersToV8Parameters NewValue parmTypes reqparms =
            Return (Inl (Errorf ''convertRequestParametersToV8Parameters: unsuported datatype'')))
     \<and> (CType item = parmTypes ! i \<and> supportedTag (CType item) \<longrightarrow>
          (\<forall>err. NewValue (Value item) = Inl err \<longrightarrow>
             convertRequestParametersToV8Parameters NewValue parmTypes reqparms =
               Return (Inl (Errorf (''convertRequestParametersToV8Parameters: '' @ err))))))
   \<and> errorfText verbs (Errorf ''convertRequestParametersToV8Parameters: not same parameter'') =
        Some ''convertRequestParametersToV8Parameters: not same parameter''
   \<and> errorfText verbs (Errorf ''convertRequestParametersToV8Parameters: unsuported datatype'') =
        Some ''convertRequestParametersToV8Parameters: unsuported datatype''
   \<and> (\<forall>err. CHR ''%'' \<notin> set err \<longrightarrow>
        errorfText verbs (Errorf (''convertRequestParametersToV8Parameters: '' @ err)) =
          Some (''convertRequestParametersToV8Parameters: '' @ err))"
proof -
  have t1: "errorfText verbs (Errorf ''convertRequestParametersToV8Parameters: not same parameter'') =
        Some ''convertRequestParametersToV8Parameters: not same parameter''"
    by (rule errorfText_without_percent) simp
  have t2: "errorfText verbs (Errorf ''convertRequestParametersToV8Parameters: unsuported datatype'') =
        Some ''convertRequestParametersToV8Parameters: unsuported datatype''"
    by (rule errorfText_without_percent) simp
  have t3: "\<forall>err. CHR ''%'' \<notin> set err \<longrightarrow>
        errorfText verbs (Errorf (''convertRequestParametersToV8Parameters: '' @ err)) =
          Some (''convertRequestParametersToV8Parameters: '' @ err)"
  proof (intro allI impI)
    fix err :: string
    assume "CHR ''%'' \<notin> set err"
    then have "CHR ''%'' \<notin> set (''convertRequestParametersToV8Parameters: '' @ err)" by simp
    then show "errorfText verbs (Errorf (''convertRequestParametersToV8Parameters: '' @ err)) =
          Some (''convertRequestParametersToV8Parameters: '' @ err)"
      by (rule errorfText_without_percent)
  qed
  from convert_first_failure_cases[of reqparms NewValue parmTypes] t1 t2 t3
  show ?thesis by blast
qed

text \<open>
  Claim C8, as the code has it.  On a parameter list no longer than the signature and
  without nil entries the marshaller returns; a signature longer than the parameter list
  is accepted, and only the given parameters are converted.  It panics with an index out
  of range, at index and length \<open>length parmTypes\<close>, exactly when the parameter list is
  strictly longer than the signature, the first \<open>length parmTypes\<close> parameters all
  pass and the next entry is a capsule: a longer list whose earlier parameter fails
  returns that parameter's error instead.
\<close>

theorem convert_params_arity:
  "(length reqparms \<le> length parmTypes \<and> None \<notin> set reqparms \<longrightarrow>
      (\<exists>r. convertRequestParametersToV8Parameters NewValue parmTypes reqparms = Return r))
   \<and> ((\<forall>j<length reqparms. paramPasses NewValue parmTypes j (reqparms ! j)) \<longrightarrow>
      convertRequestParametersToV8Parameters NewValue parmTypes reqparms =
        Return (Inr (map (engineValue NewValue) reqparms)))
   \<and> ((convertRequestParametersToV8Parameters NewValue parmTypes reqparms =
         Panic (IndexOutOfRange i n)) =
       (i = length parmTypes \<and> n = length parmTypes \<and> length parmTypes < length reqparms
          \<and> (\<forall>j<length parmTypes. paramPasses NewValue parmTypes j (reqparms ! j))
          \<and> reqparms ! length parmTypes \<noteq> None))"
proof (intro conjI impI)
  assume "length reqparms \<le> length parmTypes \<and> None \<notin> set reqparms"
  then show "\<exists>r. convertRequestParametersToV8Parameters NewValue parmTypes reqparms = Return r"
    unfolding convertRequestParametersToV8Parameters_def
    using convertLoop_total[of reqparms 0 parmTypes NewValue "[]"] by simp
next
  assume "\<forall>j<length reqparms. paramPasses NewValue parmTypes j (reqparms ! j)"
  then show "convertRequestParametersToV8Parameters NewValue parmTypes reqparms =
        Return (Inr (map (engineValue NewValue) reqparms))"
    by (rule convert_all_pass)
next
  show "(convertRequestParametersToV8Parameters NewValue parmTypes reqparms =
         Panic (IndexOutOfRange i n)) =
       (i = length parmTypes \<and> n = length parmTypes \<and> length parmTypes < length reqparms
          \<and> (\<forall>j<length parmTypes. paramPasses NewValue parmTypes j (reqparms ! j))
          \<and> reqparms ! length parmTypes \<noteq> None)"
    unfolding convertRequestParametersToV8Parameters_def
    using convertLoop_fault_iff[of 0 parmTypes NewValue reqparms "[]" i n] by simp
qed

text \<open>
  Claim C7 as stated fails: a tag mismatch at index 0 and a tag mismatch at index 1
  return the same error value, so the error does not name the index.
\<close>

theorem convert_params_error_names_no_index:
  "convertRequestParametersToV8Parameters engineNewValueOk [''string'']
     [Some \<lparr>CType = ''number'', Value = 1\<rparr>] =
     Return (Inl (Errorf ''convertRequestParametersToV8Parameters: not same parameter''))
   \<and> convertRequestParametersToV8Parameters engineNewValueOk [''number'', ''string'']
     [Some \<lparr>CType = ''number'', Value = 1\<rparr>, Some \<lparr>CType = ''number'', Value = 2\<rparr>] =
     Return (Inl (Errorf ''convertRequestParametersToV8Parameters: not same parameter''))"
  by (simp add: convertRequestParametersToV8Parameters_def engineNewValueOk_def)

text \<open>
  Claim C8 as stated fails: a parameter list strictly longer than the signature whose
  first tag differs from the signature returns the mismatch error and never indexes
  \<open>parmTypes\<close> out of range.
\<close>

theorem convert_params_longer_list_returns:
  "length [Some \<lparr>CType = ''boolean'', Value = 1\<rparr>, Some \<lparr>CType = ''number'', Value = 2::int\<rparr>]
     > length [''string'']
   \<and> convertRequestParametersToV8Parameters engineNewValueOk [''string'']
     [Some \<lparr>CType = ''boolean'', Value = 1\<rparr>, Some \<lparr>CType = ''number'', Value = 2\<rparr>] =
     Return (Inl (Errorf ''convertRequestParametersToV8Parameters: not same parameter''))"
  by (simp add: convertRequestParametersToV8Parameters_def engineNewValueOk_def)

text \<open>
  The C7 theorem at a concrete call: signature \<open>[number, string]\<close>; the parameters
  \<open>[number 1, number 2]\<close> fail at index 1, the parameters \<open>[number 1, string 2]\<close>
  convert.
\<close>

theorem convert_params_first_failure_witness:
  "paramPasses engineNewValueOk [''number'', ''string''] 0 (Some \<lparr>CType = ''number'', Value = 1\<rparr>)
   \<and> CType \<lparr>CType = ''number'', Value = 2::int\<rparr> \<noteq> [''number'', ''string''] ! 1
   \<and> convertRequestParametersToV8Parameters engineNewValueOk [''number'', ''string'']
       [Some \<lparr>CType = ''number'', Value = 1\<rparr>, Some \<lparr>CType = ''number'', Value = 2\<rparr>] =
       Return (Inl (Errorf ''convertRequestParametersToV8Parameters: not same parameter''))
   \<and> convertRequestParametersToV8Parameters engineNewValueOk [''number'', ''string'']
       [Some \<lparr>CType = ''number'', Value = 1\<rparr>, Some \<lparr>CType = ''string'', Value = 2\<rparr>] =
       Return (Inr [1, 2])"
proof -
  let ?sig = "[''number'', ''string'']"
  let ?bad = "[Some \<lparr>CType = ''number'', Value = 1::int\<rparr>, Some \<lparr>CType = ''number'', Value = 2\<rparr>]"
  let ?good = "[Some \<lparr>CType = ''number'', Value = 1::int\<rparr>, Some \<lparr>CType = ''string'', Value = 2\<rparr>]"
  have p0: "paramPasses engineNewValueOk ?sig 0 (Some \<lparr>CType = ''number'', Value = 1\<rparr>)"
    by (simp add: supportedTag_def engineNewValueOk_def)
  have p1: "paramPasses engineNewValueOk ?sig 1 (Some \<lparr>CType = ''string'', Value = 2\<rparr>)"
    by (simp add: supportedTag_def engineNewValueOk_def)
  have allp: "\<forall>j<length ?good. paramPasses engineNewValueOk ?sig j (?good ! j)"
    using p0 p1 by (simp add: less_Suc_eq)
  have pre: "\<forall>j<1. paramPasses engineNewValueOk ?sig j (?bad ! j)"
    using p0 by simp
  have ev: "map (engineValue engineNewValueOk) ?good = [1, 2]"
    by (simp add: engineValue_def engineNewValueOk_def)
  from convert_params_first_failure[of ?good engineNewValueOk ?sig] allp ev
  have good: "convertRequestParametersToV8Parameters engineNewValueOk ?sig ?good = Return (Inr [1, 2])"
    by simp
  have hyp: "1 < length ?bad \<and> 1 < length ?sig
      \<and> ?bad ! 1 = Some \<lparr>CType = ''number'', Value = 2\<rparr>
      \<and> (\<forall>j<1. paramPasses engineNewValueOk ?sig j (?bad ! j))"
    using pre by simp
  have ne: "CType \<lparr>CType = ''number'', Value = 2::int\<rparr> \<noteq> ?sig ! 1" by simp
  note at1 = convert_params_first_failure[of ?bad engineNewValueOk ?sig, THEN conjunct2,
      THEN conjunct1, THEN spec[of _ "1::nat"], THEN spec[of _ "\<lparr>CType = ''number'', Value = 2::int\<rparr>"],
      THEN mp, OF hyp, THEN conjunct1, THEN mp, OF ne]
  have bad: "convertRequestParametersToV8Parameters engineNewValueOk ?sig ?bad =
       Return (Inl (Errorf ''convertRequestParametersToV8Parameters: not same parameter''))"
    by (rule at1)
  from p0 ne good bad show ?thesis by blast
qed

text \<open>
  The C8 theorem at concrete calls: two numbers against the signature \<open>[number]\<close>
  panic at index 1; two parameters against a signature of three convert.
\<close>

theorem convert_params_arity_witness:
  "length [''number''] < length [Some \<lparr>CType = ''number'', Value = 1::int\<rparr>, Some \<lparr>CType = ''number'', Value = 2\<rparr>]
   \<and> convertRequestParametersToV8Parameters engineNewValueOk [''number'']
       [Some \<lparr>CType = ''number'', Value = 1\<rparr>, Some \<lparr>CType = ''number'', Value = 2\<rparr>] =
       Panic (IndexOutOfRange 1 1)
   \<and> convertRequestParametersToV8Parameters engineNewValueOk [''number'', ''string'', ''bytes'']
       [Some \<lparr>CType = ''number'', Value = 1\<rparr>, Some \<lparr>CType = ''string'', Value = 2\<rparr>] =
       Return (Inr [1, 2])"
proof -
  let ?long = "[Some \<lparr>CType = ''number'', Value = 1::int\<rparr>, Some \<lparr>CType = ''number'', Value = 2\<rparr>]"
  let ?good = "[Some \<lparr>CType = ''number'', Value = 1::int\<rparr>, Some \<lparr>CType = ''string'', Value = 2\<rparr>]"
  let ?sig3 = "[''number'', ''string'', ''bytes'']"
  have p0: "\<forall>j<length [''number'']. paramPasses engineNewValueOk [''number''] j (?long ! j)"
    by (simp add: supportedTag_def engineNewValueOk_def)
  have allp: "\<forall>j<length ?good. paramPasses engineNewValueOk ?sig3 j (?good ! j)"
    by (simp add: less_Suc_eq supportedTag_def engineNewValueOk_def)
  have ev: "map (engineValue engineNewValueOk) ?good = [1, 2]"
    by (simp add: engineValue_def engineNewValueOk_def)
  from convert_params_arity[of ?long "[''number'']" engineNewValueOk 1 1] p0
  have fault: "convertRequestParametersToV8Parameters engineNewValueOk [''number''] ?long =
       Panic (IndexOutOfRange 1 1)"
    by simp
  from convert_params_arity[of ?good ?sig3 engineNewValueOk] allp ev
  have ok: "convertRequestParametersToV8Parameters engineNewValueOk ?sig3 ?good = Return (Inr [1, 2])"
    by simp
  from fault ok show ?thesis by simp
qed

section \<open>Properties of the request object builder\<close>

lemma headerValuesLoop_result:
  "headerValuesLoop eng k v sliceObject = Inr res \<Longrightarrow> res = sliceObject @ map JSString v"
proof (induction v arbitrary: sliceObject)
  case Nil
  then show ?case by simp
next
  case (Cons val rest)
  show ?case
  proof (cases "eng (NewValue_headerValue k val)")
    case None
    with Cons.prems
    have "headerValuesLoop eng k rest (sliceObject @ [JSString val]) = Inr res" by simp
    from Cons.IH[OF this] show ?thesis by simp
  next
    case (Some err)
    with Cons.prems show ?thesis by simp
  qed
qed

lemma headersLoop_step:
  assumes "headersLoop eng ((k, v) # rest) headers = Inr res"
  shows "headersLoop eng rest (AList.update k (JSArray (map JSString v)) headers) = Inr res"
proof -
  from assms obtain sliceObject where
    s: "headerValuesLoop eng k v [] = Inr sliceObject" and
    r: "headersLoop eng rest (AList.update k (JSArray sliceObject) headers) = Inr res"
    by (auto split: option.splits sum.splits)
  from headerValuesLoop_result[OF s] r show ?thesis by simp
qed

lemma headersLoop_untouched:
  "headersLoop eng hs headers = Inr res \<Longrightarrow> k \<notin> fst ` set hs \<Longrightarrow>
   map_of res k = map_of headers k"
proof (induction hs arbitrary: headers)
  case Nil
  then show ?case by simp
next
  case (Cons entry rest)
  obtain k' v' where e: "entry = (k', v')" by (cases entry)
  from Cons.prems e have ne: "k \<noteq> k'" and nin: "k \<notin> fst ` set rest" by auto
  from Cons.prems(1) e
  have "headersLoop eng rest (AList.update k' (JSArray (map JSString v')) headers) = Inr res"
    using headersLoop_step by blast
  from Cons.IH[OF this nin] ne show ?case
    by (simp add: update_conv')
qed

lemma headersLoop_lookup:
  "headersLoop eng hs headers = Inr res \<Longrightarrow> distinct (map fst hs) \<Longrightarrow> (k, v) \<in> set hs \<Longrightarrow>
   map_of res k = Some (JSArray (map JSString v))"
proof (induction hs arbitrary: headers)
  case Nil
  then show ?case by simp
next
  case (Cons entry rest)
  obtain k' v' where e: "entry = (k', v')" by (cases entry)
  from Cons.prems(1) e
  have step: "headersLoop eng rest (AList.update k' (JSArray (map JSString v')) headers) = Inr res"
    using headersLoop_step by blast
  show ?case
  proof (cases "(k, v) = entry")
    case True
    with e have kv: "k = k'" "v = v'" by simp_all
    from Cons.prems(2) e kv have "k \<notin> fst ` set rest" by simp
    from headersLoop_untouched[OF step this] kv show ?thesis
      by (simp add: update_conv')
  next
    case False
    with Cons.prems(3) have "(k, v) \<in> set rest" by simp
    moreover from Cons.prems(2) have "distinct (map fst rest)" by simp
    ultimately show ?thesis using Cons.IH[OF step] by blast
  qed
qed

lemma httpCase_headers:
  assumes "httpCase eng h = Inr http"
  shows "\<exists>headers. getProperty http ''Headers'' = Some (JSObject headers)
           \<and> headersLoop eng (Header h) [] = Inr headers"
  using assms
  by (auto simp: httpCase_def getProperty_def split: sum.splits option.splits)

lemma setCallMethode_keeps_http:
  assumes "setCallMethode eng obj t = Inr requestObj"
  shows "getProperty requestObj ''http'' = map_of obj ''http''"
  using assms
  by (auto simp: setCallMethode_def getProperty_def update_conv' split: option.splits)

text \<open>
  Claim C9.  When the builder returns the request object of an HTTP request, then for
  every header name \<open>k\<close> of the request, with values \<open>v\<close>, the property
  \<^verbatim>\<open>http.Headers[k]\<close> of the object is an array of as many elements as \<open>v\<close> has: the
  values in order, as engine strings.  A header with one value gives an array of length
  one.
\<close>

theorem header_multiplicity:
  assumes built: "v8makeSharedFunctionObject eng isHttpRequest rrpcrequest = Return (Inr requestObj)"
    and http: "RequestType rrpcrequest = HTTP_REQUEST"
    and part: "HttpRequest rrpcrequest = Some h"
    and names: "distinct (map fst (Header h))"
    and entry: "(k, v) \<in> set (Header h)"
  shows "\<exists>http headers arr.
           getProperty requestObj ''http'' = Some http
         \<and> getProperty http ''Headers'' = Some headers
         \<and> getProperty headers k = Some (JSArray arr)
         \<and> length arr = length v
         \<and> arr = map JSString v"
proof -
  from built http part obtain httpObj where
    hc: "httpCase eng h = Inr httpObj" and
    fin: "setCallMethode eng
            (AList.update ''http'' httpObj
               [(''Resolve'', JSHostFunction ResolveFunctionCallbackV8),
                (''Reject'', JSHostFunction RejectFunctionCallbackV8)]) ''http'' = Inr requestObj"
    by (auto simp: v8makeSharedFunctionObject_def Let_def split: option.splits sum.splits if_splits)
  from setCallMethode_keeps_http[OF fin]
  have g1: "getProperty requestObj ''http'' = Some httpObj" by simp
  from httpCase_headers[OF hc] obtain headers where
    g2: "getProperty httpObj ''Headers'' = Some (JSObject headers)" and
    hl: "headersLoop eng (Header h) [] = Inr headers" by blast
  from headersLoop_lookup[OF hl names entry]
  have g3: "getProperty (JSObject headers) k = Some (JSArray (map JSString v))"
    by (simp add: getProperty_def)
  from g1 g2 g3 show ?thesis by simp
qed

lemma sample_built:
  "v8makeSharedFunctionObject engineOk True sampleHttpRequest = Return (Inr sampleRequestObj)"
  by (simp add: v8makeSharedFunctionObject_def httpCase_def setCallMethode_def engineOk_def
      sampleHttpRequest_def sampleHttpContext_def sampleRequestObj_def float64_def
      mantissaShift_def)

text \<open>
  The C9 theorem at a concrete request, for its header \<open>X-F\<close> with the two values
  \<open>a\<close> and \<open>b\<close>.
\<close>

theorem header_multiplicity_witness:
  "v8makeSharedFunctionObject engineOk True sampleHttpRequest = Return (Inr sampleRequestObj)
   \<and> (''X-F'', [''a'', ''b'']) \<in> set (Header sampleHttpContext)
   \<and> (\<exists>http headers arr.
           getProperty sampleRequestObj ''http'' = Some http
         \<and> getProperty http ''Headers'' = Some headers
         \<and> getProperty headers ''X-F'' = Some (JSArray arr)
         \<and> length arr = length [''a'', ''b'']
         \<and> arr = map JSString [''a'', ''b''])"
proof -
  have t: "RequestType sampleHttpRequest = HTTP_REQUEST"
    and p: "HttpRequest sampleHttpRequest = Some sampleHttpContext"
    by (simp_all add: sampleHttpRequest_def)
  have d: "distinct (map fst (Header sampleHttpContext))"
    by (simp add: sampleHttpContext_def)
  have e: "(''X-F'', [''a'', ''b'']) \<in> set (Header sampleHttpContext)"
    by (simp add: sampleHttpContext_def)
  from header_multiplicity[OF sample_built t p d e] sample_built e
  show ?thesis by blast
qed

section \<open>Properties of the task bodies\<close>

text \<open>
  Claim C10.  \<^verbatim>\<open>callInKernelEventLoopCheck\<close> returns nil for every promise and every
  state it reads, so the body of the step-5 task never calls \<^verbatim>\<open>klopr.SetError\<close>: what
  it does is what the check did, followed by \<^verbatim>\<open>klopr.SetResult(nil)\<close>, and it does not
  panic.
\<close>

theorem finall_always_sets_result:
  "snd (callInKernelEventLoopCheck prom st) = None
   \<and> finallTaskBody prom st = (fst (callInKernelEventLoopCheck prom st) @ [SetResult], None)
   \<and> concat (map setErrorCalls (fst (finallTaskBody prom st))) = []
   \<and> last (fst (finallTaskBody prom st)) = SetResult"
  by (cases st) (simp_all add: callInKernelEventLoopCheck_def finallTaskBody_def)

text \<open>
  Claim C5.  The poll step, for each state of the promise.  Pending: it starts one
  goroutine, outside the engine thread, that sleeps one millisecond and then submits the
  re-check task for the same promise, whose body is the same check.  Rejected: it
  performs one microtask checkpoint and nothing else.  Fulfilled: it does nothing.  In
  no state does the check, the step-5 body or the re-check body call a terminator of the
  request context, and the only task ever submitted is the re-check.
\<close>

theorem poll_step:
  "callInKernelEventLoopCheck prom Pending =
     ([GoRoutine [TimeSleep 1, AddToEventLoop (CheckTask prom)]], None)
   \<and> callInKernelEventLoopCheck prom Rejected = ([PerformMicrotaskCheckpoint], None)
   \<and> callInKernelEventLoopCheck prom Fulfilled = ([], None)
   \<and> checkTaskBody prom st = (fst (callInKernelEventLoopCheck prom st), None)
   \<and> concat (map terminatorCalls (fst (callInKernelEventLoopCheck prom st))) = []
   \<and> concat (map terminatorCalls (fst (finallTaskBody prom st))) = []
   \<and> concat (map terminatorCalls (fst (checkTaskBody prom st))) = []
   \<and> set (concat (map submittedTasks (fst (finallTaskBody prom st)))) \<subseteq> {CheckTask prom}
   \<and> length (concat (map submittedTasks (fst (finallTaskBody prom st)))) \<le> 1"
  by (cases st)
     (simp_all add: callInKernelEventLoopCheck_def finallTaskBody_def checkTaskBody_def)

text \<open>
  Claim C2, as the code has it.  When the wrapper call throws, the step-3 body panics
  with the engine's error after the call: it calls neither setter, submits no task and
  calls no terminator.
\<close>

theorem sync_throw_panics:
  "callTaskBody add (Inl err) proxFunction proxArguments =
     ([CallFunction proxFunction proxArguments], Some (PanicValue err))
   \<and> concat (map setErrorCalls (fst (callTaskBody add (Inl err) proxFunction proxArguments))) = []
   \<and> concat (map terminatorCalls (fst (callTaskBody add (Inl err) proxFunction proxArguments))) = []
   \<and> concat (map submittedTasks (fst (callTaskBody add (Inl err) proxFunction proxArguments))) = []"
  by (simp add: callTaskBody_def)

text \<open>
  Claim C2 as stated fails: on a wrapper that throws \<open>boom\<close> the step-3 body panics;
  no error setter is called and no terminal state is written.
\<close>

theorem sync_throw_no_error_setter:
  "snd (callTaskBody kernelOk (Inl ''boom'')
          (JSScriptFunction ''rpc_function_call_proxy_shield.js'') []) = Some (PanicValue ''boom'')
   \<and> concat (map setErrorCalls (fst (callTaskBody kernelOk (Inl ''boom'')
          (JSScriptFunction ''rpc_function_call_proxy_shield.js'') []))) = []
   \<and> concat (map terminatorCalls (fst (callTaskBody kernelOk (Inl ''boom'')
          (JSScriptFunction ''rpc_function_call_proxy_shield.js'') []))) = []"
  by (simp add: callTaskBody_def)

text \<open>
  Claim C4, as the code has it.  When the wrapper's value is not a promise, the step-4
  body panics with \<open>isnr promise\<close> before it does anything: no terminal state, no
  setter, no callback attached, no poll submitted.
\<close>

theorem non_promise_panics:
  assumes "\<not> IsPromise result"
  shows "promiseOperationTaskBody add result = ([], Some (PanicValue ''isnr promise''))"
  using assms by (simp add: promiseOperationTaskBody_def)

theorem non_promise_panics_witness:
  "\<not> IsPromise (JSString ''done'')
   \<and> promiseOperationTaskBody kernelOk (JSString ''done'') = ([], Some (PanicValue ''isnr promise''))"
proof -
  have h: "\<not> IsPromise (JSString ''done'')" by (simp add: IsPromise_def)
  from non_promise_panics[OF h, of kernelOk] h show ?thesis by simp
qed

text \<open>
  Claim C4 as stated fails: on the number 5 the step-4 body panics and calls no
  terminator, so no aborted state is written.
\<close>

theorem non_promise_no_aborted_state:
  "snd (promiseOperationTaskBody kernelOk (JSNumber 5)) = Some (PanicValue ''isnr promise'')
   \<and> concat (map terminatorCalls (fst (promiseOperationTaskBody kernelOk (JSNumber 5)))) = []"
  by (simp add: promiseOperationTaskBody_def IsPromise_def)

text \<open>
  Claim C6.  On a promise \<open>prom\<close> the step-4 body does not panic and submits one task,
  the poll of the promise \<^verbatim>\<open>prom.Then(funcFinal, throwProm).Catch(throwProm)\<close>.
  \<^verbatim>\<open>funcFinal\<close> calls \<^verbatim>\<open>functionCallFinal\<close>, \<^verbatim>\<open>throwProm\<close> calls
  \<^verbatim>\<open>functionCallException\<close> with the string of the reason it is given, and both return
  undefined.
\<close>

theorem attach_settlement_callbacks:
  "snd (promiseOperationTaskBody add (JSPromise prom)) = None
   \<and> concat (map submittedTasks (fst (promiseOperationTaskBody add (JSPromise prom)))) =
       [FinallTask (Catch (Then prom FuncFinal ThrowProm) ThrowProm)]
   \<and> hostFunctionBody toString FuncFinal = Some funcFinal
   \<and> hostFunctionBody toString ThrowProm = Some (throwProm toString)
   \<and> funcFinal args = Return ([Terminator FunctionCallFinal], JSUndefined)
   \<and> throwProm toString (reason # rest) =
       Return ([Terminator (FunctionCallException (toString reason))], JSUndefined)"
  by (auto simp: promiseOperationTaskBody_def IsPromise_def AsPromise_def
      functionCallInEventloopFinall_def submitToEventLoop_def hostFunctionBody_def
      funcFinal_def throwProm_def Let_def split: option.splits kernel_error.splits)

text \<open>
  Claim C3 on the code: signature \<open>[string]\<close>, one parameter tagged \<open>number\<close>.  The
  marshaller returns the mismatch error and the step-1 body returns at once: it calls
  neither setter, calls no terminator and submits no task.
\<close>

theorem init_type_mismatch_is_silent:
  "convertRequestParametersToV8Parameters engineNewValueJs [''string'']
     [Some \<lparr>CType = ''number'', Value = JSNumber 1\<rparr>] =
     Return (Inl (Errorf ''convertRequestParametersToV8Parameters: not same parameter''))
   \<and> initTaskBody engineNewValueJs engineOk True kernelOk [''string'']
       \<lparr>RequestType = IPC_REQUEST, HttpRequest = None,
        Parms = [Some \<lparr>CType = ''number'', Value = JSNumber 1\<rparr>]\<rparr> = ([], None)"
  by (simp add: initTaskBody_def convertRequestParametersToV8Parameters_def)

section \<open>Properties of the terminal guard\<close>








end
